theory Spec2Isabelle
  imports Main
begin

section \<open>The Lambda entry point of \<^verbatim>\<open>src/lambda/index.py\<close>\<close>

text \<open>
  The module is, in full:
  \<^verbatim>\<open>
  import json

  def handler(event, context):
      print("File uploaded")
      secret_arn = os.environ.get("SECRETS_MANAGER_ARN")

      print(f"Secret ARN: {secret_arn}")

      return {
          "statusCode": 200,
          "body": json.dumps("Success")
      }
  \<close>
  The body of \<^verbatim>\<open>handler\<close> refers to two module names, \<^verbatim>\<open>os\<close> and \<^verbatim>\<open>json\<close>. Python
  resolves a free name of a function body when the expression is evaluated, in the
  global namespace of the defining module; a name bound nowhere raises
  \<^verbatim>\<open>NameError\<close>. The model keeps that lookup: \<open>handler\<close> takes the names the module has
  imported, and \<open>index_globals\<close> is what \<^verbatim>\<open>index.py\<close> imports.
\<close>

subsection \<open>Data\<close>

text \<open>The exceptions the body can raise: an unbound global name.\<close>

datatype error = NameError string

text \<open>The dictionary the function returns, with its two fixed keys.\<close>

record response =
  statusCode :: int
  body :: string

text \<open>
  What an invocation can see and touch outside its own frame: the objects on the heap
  (the event and the context are passed as references to two of them), the process
  environment \<^verbatim>\<open>os.environ\<close>, and the lines written to standard output, oldest first,
  one entry for each call of \<^verbatim>\<open>print\<close>.
\<close>

record 'o world =
  heap :: "nat \<rightharpoonup> 'o"
  environ :: "string \<rightharpoonup> string"
  stdout :: "string list"

text \<open>Line 1 of the module, \<^verbatim>\<open>import json\<close>, is its only import statement.\<close>

definition index_globals :: "string list" where
  "index_globals = [''json'']"

subsection \<open>Library functions the body calls\<close>

text \<open>\<^verbatim>\<open>print(s)\<close> with a single string argument writes \<open>s\<close> as one more line.\<close>

definition print :: "string \<Rightarrow> 'o world \<Rightarrow> 'o world" where
  "print s w = w\<lparr>stdout := stdout w @ [s]\<rparr>"

text \<open>
  A replacement field \<^verbatim>\<open>{secret_arn}\<close> of an f-string formats the value with an empty
  format specification: a string is inserted as it is, and \<^verbatim>\<open>None\<close> as the text
  \<^verbatim>\<open>None\<close>. The result of \<^verbatim>\<open>os.environ.get(key)\<close> is the value or \<^verbatim>\<open>None\<close>, here an
  \<open>option\<close>.
\<close>

fun format_value :: "string option \<Rightarrow> string" where
  "format_value None = ''None''"
| "format_value (Some v) = v"

text \<open>
  \<^verbatim>\<open>json.dumps\<close> on a string (with the default \<^verbatim>\<open>ensure_ascii=True\<close>): the text between
  double quotes, with the quote and the backslash escaped, the five short control
  escapes, and every other character outside the printable ASCII range written as
  \<^verbatim>\<open>\u00XX\<close>. A \<open>char\<close> is a code point below 256.
\<close>

definition hex_digit :: "nat \<Rightarrow> char" where
  "hex_digit n = ''0123456789abcdef'' ! (n mod 16)"

definition escape_ascii :: "char \<Rightarrow> string" where
  "escape_ascii c =
     (if c = CHR 0x22 then [CHR 0x5C, CHR 0x22]
      else if c = CHR 0x5C then [CHR 0x5C, CHR 0x5C]
      else if c = CHR 0x08 then [CHR 0x5C, CHR ''b'']
      else if c = CHR 0x0C then [CHR 0x5C, CHR ''f'']
      else if c = CHR 0x0A then [CHR 0x5C, CHR ''n'']
      else if c = CHR 0x0D then [CHR 0x5C, CHR ''r'']
      else if c = CHR 0x09 then [CHR 0x5C, CHR ''t'']
      else if 32 \<le> (of_char c :: nat) \<and> (of_char c :: nat) \<le> 126 then [c]
      else [CHR 0x5C, CHR ''u'', CHR ''0'', CHR ''0'',
            hex_digit (of_char c div 16), hex_digit (of_char c mod 16)])"

definition json_dumps :: "string \<Rightarrow> string" where
  "json_dumps s = [CHR 0x22] @ concat (map escape_ascii s) @ [CHR 0x22]"

subsection \<open>The handler\<close>

text \<open>
  The statements in source order. \<open>globals\<close> is the list of module names bound in the
  global namespace. The first \<^verbatim>\<open>print\<close> has happened when \<^verbatim>\<open>os\<close> is looked up, and the
  second when \<^verbatim>\<open>json\<close> is; an exception leaves the function with the world as it is
  at that point. The arguments \<open>event\<close> and \<open>context\<close> are heap references.
\<close>

definition handler ::
  "string list \<Rightarrow> nat \<Rightarrow> nat \<Rightarrow> 'o world \<Rightarrow> (error + response) \<times> 'o world" where
  "handler globals event context w =
     (let w1 = print ''File uploaded'' w in
      if ''os'' \<in> set globals then
        (let secret_arn = environ w1 ''SECRETS_MANAGER_ARN'';
             w2 = print (''Secret ARN: '' @ format_value secret_arn) w1 in
         if ''json'' \<in> set globals then
           (Inr \<lparr>statusCode = 200, body = json_dumps ''Success''\<rparr>, w2)
         else (Inl (NameError ''json''), w2))
      else (Inl (NameError ''os''), w1))"

text \<open>The lines one invocation writes: what standard output holds beyond what it held.\<close>

definition log_lines :: "string list \<Rightarrow> nat \<Rightarrow> nat \<Rightarrow> 'o world \<Rightarrow> string list" where
  "log_lines globals event context w =
     drop (length (stdout w)) (stdout (snd (handler globals event context w)))"

text \<open>The world after \<open>n\<close> invocations in a row with the same arguments.\<close>

primrec invocations :: "string list \<Rightarrow> nat \<Rightarrow> nat \<Rightarrow> nat \<Rightarrow> 'o world \<Rightarrow> 'o world" where
  "invocations globals event context 0 w = w"
| "invocations globals event context (Suc n) w =
     snd (handler globals event context (invocations globals event context n w))"

section \<open>Behaviour of the module as written\<close>

lemma json_dumps_Success: "json_dumps ''Success'' = [CHR 0x22] @ ''Success'' @ [CHR 0x22]"
  by (simp add: json_dumps_def escape_ascii_def)

text \<open>
  \<^verbatim>\<open>index.py\<close> never imports \<^verbatim>\<open>os\<close>, so every invocation writes the first line and then
  raises \<^verbatim>\<open>NameError\<close> at \<^verbatim>\<open>os.environ\<close>.
\<close>

lemma handler_index_globals:
  "handler index_globals event context w = (Inl (NameError ''os''), print ''File uploaded'' w)"
  by (simp add: handler_def index_globals_def)

lemma log_lines_index_globals:
  "log_lines index_globals event context w = [''File uploaded'']"
  by (simp add: log_lines_def handler_index_globals print_def)

text \<open>
  With \<^verbatim>\<open>os\<close> bound as well, the same body runs to its end: two lines, the second made
  from the value under \<^verbatim>\<open>SECRETS_MANAGER_ARN\<close>, and the fixed response.
\<close>

lemma handler_os_bound:
  assumes "''os'' \<in> set globals" and "''json'' \<in> set globals"
  shows "handler globals event context w =
           (Inr \<lparr>statusCode = 200, body = [CHR 0x22] @ ''Success'' @ [CHR 0x22]\<rparr>,
            w\<lparr>stdout := stdout w @ [''File uploaded'',
                 ''Secret ARN: '' @ format_value (environ w ''SECRETS_MANAGER_ARN'')]\<rparr>)"
  using assms by (simp add: handler_def print_def json_dumps_Success Let_def)

section \<open>What holds in every global namespace\<close>

text \<open>
  The value \<open>handler\<close> returns or raises is fixed by the names that are bound: it reads
  nothing else to decide it.
\<close>

lemma handler_result:
  "fst (handler globals event context w) =
     (if ''os'' \<in> set globals then
        if ''json'' \<in> set globals
        then Inr \<lparr>statusCode = 200, body = json_dumps ''Success''\<rparr>
        else Inl (NameError ''json'')
      else Inl (NameError ''os''))"
  by (simp add: handler_def Let_def)

lemma handler_heap: "heap (snd (handler globals event context w)) = heap w"
  by (simp add: handler_def print_def Let_def)

lemma handler_environ: "environ (snd (handler globals event context w)) = environ w"
  by (simp add: handler_def print_def Let_def)

lemma log_lines_eq:
  "log_lines globals event context w =
     (if ''os'' \<in> set globals
      then [''File uploaded'',
            ''Secret ARN: '' @ format_value (environ w ''SECRETS_MANAGER_ARN'')]
      else [''File uploaded''])"
  by (simp add: log_lines_def handler_def print_def Let_def)

lemma invocations_environ:
  "environ (invocations globals event context n w) = environ w"
  by (induction n) (simp_all add: handler_environ)

lemma invocations_heap:
  "heap (invocations globals event context n w) = heap w"
  by (induction n) (simp_all add: handler_heap)

text \<open>
  The environment reaches the outcome and the lines through one key at most, and with
  \<^verbatim>\<open>os\<close> bound it does reach them: the second line changes with the value under the
  key.
\<close>

lemma handler_environ_upper_bound:
  assumes "environ w1 ''SECRETS_MANAGER_ARN'' = environ w2 ''SECRETS_MANAGER_ARN''"
  shows "fst (handler globals event context w1) = fst (handler globals event context w2)
         \<and> log_lines globals event context w1 = log_lines globals event context w2"
  using assms by (simp add: handler_result log_lines_eq)

lemma log_lines_os_bound:
  assumes "''os'' \<in> set globals"
  shows "log_lines globals event context w =
           [''File uploaded'',
            ''Secret ARN: '' @ format_value (environ w ''SECRETS_MANAGER_ARN'')]"
  using assms by (simp add: log_lines_eq)

section \<open>The claims\<close>

text \<open>
  C1 (the code departs from it). The claim: for every event, context and environment
  \<open>handler\<close> returns the record with status code 200 and the serialised text
  \<^verbatim>\<open>Success\<close> as body. In the module as written, invoked with two empty dictionaries
  as event and context and an empty environment, the call returns no record: it ends
  with \<^verbatim>\<open>NameError\<close> for the name \<^verbatim>\<open>os\<close>.
\<close>

theorem handler_empty_input_name_error:
  "fst (handler index_globals 0 1
          \<lparr>heap = [0 \<mapsto> ([] :: (string \<times> string) list), 1 \<mapsto> []],
           environ = Map.empty, stdout = []\<rparr>)
     = Inl (NameError ''os'')"
  by (simp add: handler_index_globals)

text \<open>
  C2 (the code departs from it). The claim: no invocation raises an exception. In the
  module as written, an invocation in an environment that holds only \<^verbatim>\<open>AWS_REGION\<close>
  ends in an error value, not in a response.
\<close>

theorem handler_raises_in_index_module:
  "isl (fst (handler index_globals 0 1
          \<lparr>heap = [0 \<mapsto> ([] :: (string \<times> string) list), 1 \<mapsto> []],
           environ = [''AWS_REGION'' \<mapsto> ''us-east-1''], stdout = []\<rparr>))"
  by (simp add: handler_index_globals)

text \<open>
  C3 (the code departs from it). The claim: one invocation writes exactly two lines,
  the fixed upload message and then a line with the configuration value. In the module
  as written, the invocation with empty event, context and environment writes one
  line only, the upload message.
\<close>

theorem handler_writes_one_line:
  "log_lines index_globals 0 1
     \<lparr>heap = [0 \<mapsto> ([] :: (string \<times> string) list), 1 \<mapsto> []],
      environ = Map.empty, stdout = []\<rparr>
     = [''File uploaded'']
   \<and> length (log_lines index_globals 0 1
        \<lparr>heap = [0 \<mapsto> ([] :: (string \<times> string) list), 1 \<mapsto> []],
         environ = Map.empty, stdout = []\<rparr>) = 1"
  by (simp add: log_lines_index_globals)

text \<open>
  C4. An invocation leaves the heap, and with it the objects the event and the context
  refer to, and the process environment as they were, whatever names are bound and
  whether it returns or raises.
\<close>

theorem handler_frame:
  "heap (snd (handler globals event context w)) = heap w
   \<and> environ (snd (handler globals event context w)) = environ w"
  by (simp add: handler_heap handler_environ)

text \<open>
  C5. Invoked again after any number \<open>n\<close> of earlier invocations with the same
  arguments, \<open>handler\<close> gives the outcome of the first invocation and writes the same
  lines, and the earlier invocations have left the heap and the environment unchanged.
  The outcome is the value returned or the exception raised; in the module as written
  it is the \<^verbatim>\<open>NameError\<close> each time.
\<close>

theorem handler_idempotent:
  "fst (handler globals event context (invocations globals event context n w))
     = fst (handler globals event context w)
   \<and> log_lines globals event context (invocations globals event context n w)
     = log_lines globals event context w
   \<and> heap (invocations globals event context n w) = heap w
   \<and> environ (invocations globals event context n w) = environ w"
  by (simp add: handler_result log_lines_eq invocations_environ invocations_heap)

text \<open>
  C6 (the code departs from it). The claim: with the key unset no error is raised, the
  second line shows the missing value, and the response is the fixed one. In the module
  as written, in an environment without \<^verbatim>\<open>SECRETS_MANAGER_ARN\<close> the call raises
  \<^verbatim>\<open>NameError\<close> after the first line; there is no second line and no response.
\<close>

theorem handler_key_unset_raises:
  "handler index_globals 0 1
     \<lparr>heap = [0 \<mapsto> ([] :: (string \<times> string) list), 1 \<mapsto> []],
      environ = [''PATH'' \<mapsto> ''/usr/bin''], stdout = []\<rparr>
   = (Inl (NameError ''os''),
      \<lparr>heap = [0 \<mapsto> [], 1 \<mapsto> []],
       environ = [''PATH'' \<mapsto> ''/usr/bin''], stdout = [''File uploaded'']\<rparr>)"
  by (simp add: handler_index_globals print_def)

text \<open>
  C7. Two invocations in the same environment give the same outcome and write the same
  lines, whatever references are passed as event and context and whatever objects the
  heap holds.
\<close>

theorem handler_ignores_event_and_context:
  "fst (handler globals event1 context1 (w\<lparr>heap := h1\<rparr>))
     = fst (handler globals event2 context2 (w\<lparr>heap := h2\<rparr>))
   \<and> log_lines globals event1 context1 (w\<lparr>heap := h1\<rparr>)
     = log_lines globals event2 context2 (w\<lparr>heap := h2\<rparr>)"
  by (simp add: handler_result log_lines_eq)

text \<open>
  C8 (the code departs from it). The claim: with the key set to
  \<^verbatim>\<open>arn:aws:secretsmanager:...:secret:foo\<close> the second line contains that text and the
  response is the fixed one. In the module as written, the call in that environment
  raises \<^verbatim>\<open>NameError\<close>, and the only line written is the upload message.
\<close>

theorem handler_key_set_raises:
  "fst (handler index_globals 0 1
          \<lparr>heap = [0 \<mapsto> ([] :: (string \<times> string) list), 1 \<mapsto> []],
           environ = [''SECRETS_MANAGER_ARN'' \<mapsto> ''arn:aws:secretsmanager:...:secret:foo''],
           stdout = []\<rparr>)
     = Inl (NameError ''os'')
   \<and> log_lines index_globals 0 1
          \<lparr>heap = [0 \<mapsto> ([] :: (string \<times> string) list), 1 \<mapsto> []],
           environ = [''SECRETS_MANAGER_ARN'' \<mapsto> ''arn:aws:secretsmanager:...:secret:foo''],
           stdout = []\<rparr>
     = [''File uploaded'']"
  by (simp add: handler_index_globals log_lines_index_globals)

text \<open>
  C9 (the code departs from it). The claim: the key \<open>handler\<close> reads is exactly
  \<^verbatim>\<open>SECRETS_MANAGER_ARN\<close>, and the environment reaches the response and the lines
  through that key alone. In the module as written the key is never read: two
  invocations whose environments hold different values under \<^verbatim>\<open>SECRETS_MANAGER_ARN\<close>
  end alike, with \<^verbatim>\<open>NameError\<close> and the upload message as the only line, and neither
  value is written.
\<close>

theorem handler_never_reads_secret_key:
  "environ \<lparr>heap = [0 \<mapsto> ([] :: (string \<times> string) list), 1 \<mapsto> []],
            environ = [''SECRETS_MANAGER_ARN'' \<mapsto> ''arn:a''], stdout = []\<rparr>
      ''SECRETS_MANAGER_ARN'' = Some ''arn:a''
   \<and> environ \<lparr>heap = [0 \<mapsto> ([] :: (string \<times> string) list), 1 \<mapsto> []],
            environ = [''SECRETS_MANAGER_ARN'' \<mapsto> ''arn:b''], stdout = []\<rparr>
      ''SECRETS_MANAGER_ARN'' = Some ''arn:b''
   \<and> handler index_globals 0 1
        \<lparr>heap = [0 \<mapsto> ([] :: (string \<times> string) list), 1 \<mapsto> []],
         environ = [''SECRETS_MANAGER_ARN'' \<mapsto> ''arn:a''], stdout = []\<rparr>
     = (Inl (NameError ''os''),
        \<lparr>heap = [0 \<mapsto> [], 1 \<mapsto> []],
         environ = [''SECRETS_MANAGER_ARN'' \<mapsto> ''arn:a''], stdout = [''File uploaded'']\<rparr>)
   \<and> handler index_globals 0 1
        \<lparr>heap = [0 \<mapsto> ([] :: (string \<times> string) list), 1 \<mapsto> []],
         environ = [''SECRETS_MANAGER_ARN'' \<mapsto> ''arn:b''], stdout = []\<rparr>
     = (Inl (NameError ''os''),
        \<lparr>heap = [0 \<mapsto> [], 1 \<mapsto> []],
         environ = [''SECRETS_MANAGER_ARN'' \<mapsto> ''arn:b''], stdout = [''File uploaded'']\<rparr>)
   \<and> log_lines index_globals 0 1
        \<lparr>heap = [0 \<mapsto> ([] :: (string \<times> string) list), 1 \<mapsto> []],
         environ = [''SECRETS_MANAGER_ARN'' \<mapsto> ''arn:a''], stdout = []\<rparr>
     = log_lines index_globals 0 1
        \<lparr>heap = [0 \<mapsto> ([] :: (string \<times> string) list), 1 \<mapsto> []],
         environ = [''SECRETS_MANAGER_ARN'' \<mapsto> ''arn:b''], stdout = []\<rparr>"
  by (simp add: handler_index_globals log_lines_index_globals print_def)

text \<open>
  C10 (the code departs from it). The claim: the second line is \<^verbatim>\<open>Secret ARN: None\<close>
  when the key is absent and \<^verbatim>\<open>Secret ARN: \<close> followed by the value when it is
  present. In the module as written, standard output holds the upload message alone
  after the call, with the key absent and with the key set to \<^verbatim>\<open>arn:x\<close>.
\<close>

theorem handler_no_secret_line:
  "stdout (snd (handler index_globals 0 1
          \<lparr>heap = [0 \<mapsto> ([] :: (string \<times> string) list), 1 \<mapsto> []],
           environ = Map.empty, stdout = []\<rparr>))
     = [''File uploaded'']
   \<and> stdout (snd (handler index_globals 0 1
          \<lparr>heap = [0 \<mapsto> ([] :: (string \<times> string) list), 1 \<mapsto> []],
           environ = [''SECRETS_MANAGER_ARN'' \<mapsto> ''arn:x''], stdout = []\<rparr>))
     = [''File uploaded'']"
  by (simp add: handler_index_globals print_def)

end
